theory Spec2Isabelle
  imports Complex_Main "HOL-Library.Sublist"
begin

section \<open>Python values\<close>

text \<open>
  A Python float is modelled as an exact rational or one of the three non-finite values;
  rounding, overflow and the sign of zero are outside the model. Python's int and float
  are not told apart: every JSON number is a \<open>PNumber\<close>.
\<close>

datatype pyfloat = Fin rat | PosInf | NegInf | Nan

text \<open>
  The values a field of the parsed JSON body (and a cell of a data frame) can hold:
  \<open>None\<close>, a bool, a number or a str. Nested lists and objects are outside the model.
\<close>

datatype pyval = PNone | PBool bool | PNumber pyfloat | PStr string

text \<open>An exception carries the text that \<open>str(e)\<close> returns.\<close>

datatype exn = KeyError string | ValueError string | TypeError string
  | IndexError string | LibraryError string

fun str_exn :: "exn \<Rightarrow> string" where
  "str_exn (KeyError k) = [CHR 0x27] @ k @ [CHR 0x27]"
| "str_exn (ValueError m) = m"
| "str_exn (TypeError m) = m"
| "str_exn (IndexError m) = m"
| "str_exn (LibraryError m) = m"

text \<open>Sequencing of a computation that may raise: the first exception wins.\<close>

definition and_then :: "exn + 'a \<Rightarrow> ('a \<Rightarrow> exn + 'b) \<Rightarrow> exn + 'b" where
  "and_then r f = (case r of Inl e \<Rightarrow> Inl e | Inr v \<Rightarrow> f v)"

fun traverse :: "('a \<Rightarrow> exn + 'b) \<Rightarrow> 'a list \<Rightarrow> exn + 'b list" where
  "traverse f [] = Inr []"
| "traverse f (x # xs) =
     and_then (f x) (\<lambda>y. and_then (traverse f xs) (\<lambda>ys. Inr (y # ys)))"

subsection \<open>Float arithmetic (IEEE rules for the non-finite values)\<close>

fun fl_neg :: "pyfloat \<Rightarrow> pyfloat" where
  "fl_neg (Fin x) = Fin (- x)"
| "fl_neg PosInf = NegInf"
| "fl_neg NegInf = PosInf"
| "fl_neg Nan = Nan"

fun fl_add :: "pyfloat \<Rightarrow> pyfloat \<Rightarrow> pyfloat" where
  "fl_add (Fin x) (Fin y) = Fin (x + y)"
| "fl_add Nan _ = Nan"
| "fl_add _ Nan = Nan"
| "fl_add PosInf NegInf = Nan"
| "fl_add NegInf PosInf = Nan"
| "fl_add PosInf _ = PosInf"
| "fl_add NegInf _ = NegInf"
| "fl_add _ PosInf = PosInf"
| "fl_add _ NegInf = NegInf"

definition fl_sub :: "pyfloat \<Rightarrow> pyfloat \<Rightarrow> pyfloat" where
  "fl_sub a b = fl_add a (fl_neg b)"

text \<open>
  Division of numpy floats never raises: a zero denominator gives an infinity or NaN.
  That is the division-by-zero branch of the ratio features.
\<close>

fun fl_div :: "pyfloat \<Rightarrow> pyfloat \<Rightarrow> pyfloat" where
  "fl_div (Fin x) (Fin y) =
     (if y = 0 then (if x = 0 then Nan else if 0 < x then PosInf else NegInf)
      else Fin (x / y))"
| "fl_div Nan _ = Nan"
| "fl_div _ Nan = Nan"
| "fl_div (Fin x) _ = Fin 0"
| "fl_div PosInf (Fin y) = (if 0 \<le> y then PosInf else NegInf)"
| "fl_div NegInf (Fin y) = (if 0 \<le> y then NegInf else PosInf)"
| "fl_div _ _ = Nan"

text \<open>\<open>x > 0\<close>: a comparison with NaN is False.\<close>

fun fl_gt0 :: "pyfloat \<Rightarrow> bool" where
  "fl_gt0 (Fin x) = (0 < x)"
| "fl_gt0 PosInf = True"
| "fl_gt0 NegInf = False"
| "fl_gt0 Nan = False"

text \<open>The chained comparison \<open>min_val <= value <= max_val\<close> with integer bounds.\<close>

fun fl_between :: "int \<Rightarrow> pyfloat \<Rightarrow> int \<Rightarrow> bool" where
  "fl_between lo (Fin x) hi = (of_int lo \<le> x \<and> x \<le> of_int hi)"
| "fl_between lo PosInf hi = False"
| "fl_between lo NegInf hi = False"
| "fl_between lo Nan hi = False"

text \<open>
  \<open>.astype(int)\<close> on a float column truncates towards zero and raises on a
  non-finite value.
\<close>

fun astype_int :: "pyfloat \<Rightarrow> exn + pyval" where
  "astype_int (Fin x) = Inr (PNumber (Fin (of_int (if 0 \<le> x then \<lfloor>x\<rfloor> else \<lceil>x\<rceil>))))"
| "astype_int PosInf = Inl (ValueError ''Cannot convert non-finite values (NA or inf) to integer'')"
| "astype_int NegInf = Inl (ValueError ''Cannot convert non-finite values (NA or inf) to integer'')"
| "astype_int Nan = Inl (ValueError ''Cannot convert non-finite values (NA or inf) to integer'')"

text \<open>
  The numeric reading of a cell in column arithmetic: a bool counts as 0 or 1, a cell
  of an object column (None, str) makes the operation raise TypeError.
\<close>

fun as_num :: "pyval \<Rightarrow> exn + pyfloat" where
  "as_num (PNumber f) = Inr f"
| "as_num (PBool b) = Inr (Fin (if b then 1 else 0))"
| "as_num PNone = Inl (TypeError ''unsupported operand type'')"
| "as_num (PStr s) = Inl (TypeError ''unsupported operand type'')"

text \<open>
  The builtin \<open>float()\<close>. What it makes of a str is a parameter: \<open>None\<close> where it
  raises ValueError.
\<close>

fun py_float :: "(string \<Rightarrow> pyfloat option) \<Rightarrow> pyval \<Rightarrow> exn + pyfloat" where
  "py_float p (PNumber f) = Inr f"
| "py_float p (PBool b) = Inr (Fin (if b then 1 else 0))"
| "py_float p PNone = Inl (TypeError ''float() argument must be a string or a real number'')"
| "py_float p (PStr s) =
     (case p s of None \<Rightarrow> Inl (ValueError ''could not convert string to float'')
      | Some f \<Rightarrow> Inr f)"

text \<open>
  \<open>pd.to_numeric(column, errors='coerce')\<close> on the one-row column built from a request
  field: what cannot be parsed becomes NaN. What it makes of a str is a parameter.
\<close>

fun to_numeric :: "(string \<Rightarrow> pyfloat) \<Rightarrow> pyval \<Rightarrow> pyval" where
  "to_numeric p PNone = PNumber Nan"
| "to_numeric p (PBool b) = PBool b"
| "to_numeric p (PNumber f) = PNumber f"
| "to_numeric p (PStr s) = PNumber (p s)"

subsection \<open>Strings\<close>

fun join :: "string \<Rightarrow> string list \<Rightarrow> string" where
  "join sep [] = []"
| "join sep [x] = x"
| "join sep (x # y # ys) = x @ sep @ join sep (y # ys)"

fun str_nat :: "nat \<Rightarrow> string" where
  "str_nat n =
     (if n < 10 then [''0123456789'' ! n]
      else str_nat (n div 10) @ [''0123456789'' ! (n mod 10)])"

definition str_int :: "int \<Rightarrow> string" where
  "str_int i = (if i < 0 then CHR ''-'' # str_nat (nat (- i)) else str_nat (nat i))"

text \<open>Python's \<open>sub in s\<close> on strs.\<close>

fun starts_with :: "string \<Rightarrow> string \<Rightarrow> bool" where
  "starts_with s [] = True"
| "starts_with [] (c # cs) = False"
| "starts_with (d # ds) (c # cs) = (d = c \<and> starts_with ds cs)"

fun str_contains :: "string \<Rightarrow> string \<Rightarrow> bool" where
  "str_contains [] sub = (sub = [])"
| "str_contains (c # cs) sub = (starts_with (c # cs) sub \<or> str_contains cs sub)"

section \<open>Data frames\<close>

text \<open>
  A data frame is its list of labelled columns, in column order; every column holds one
  cell per row. Labels may repeat (pandas allows it after a concatenation).
\<close>

type_synonym frame = "(string \<times> pyval list) list"

text \<open>
  The parsed JSON object \<open>request.json\<close>: its items in insertion order, the keys
  distinct; \<open>data[k]\<close> is \<open>map_of data k\<close>. A body that is not a JSON object is
  outside the model.
\<close>

type_synonym pydict = "(string \<times> pyval) list"

definition columns :: "frame \<Rightarrow> string list" where
  "columns df = map fst df"

definition nrows :: "frame \<Rightarrow> nat" where
  "nrows df = (case df of [] \<Rightarrow> 0 | (k, c) # rest \<Rightarrow> length c)"

text \<open>\<open>pd.DataFrame([data])\<close>: one row, one column per key.\<close>

definition DataFrame1 :: "pydict \<Rightarrow> frame" where
  "DataFrame1 data = map (\<lambda>(k, v). (k, [v])) data"

text \<open>
  \<open>df[k]\<close> for a single label. The code reads single columns only while the labels
  are still distinct.
\<close>

definition getcol :: "frame \<Rightarrow> string \<Rightarrow> exn + pyval list" where
  "getcol df k = (case map_of df k of None \<Rightarrow> Inl (KeyError k) | Some c \<Rightarrow> Inr c)"

definition getnum :: "frame \<Rightarrow> string \<Rightarrow> exn + pyfloat list" where
  "getnum df k = and_then (getcol df k) (traverse as_num)"

text \<open>\<open>df[k] = column\<close>: overwrite in place, or append a new column.\<close>

fun setcol :: "frame \<Rightarrow> string \<Rightarrow> pyval list \<Rightarrow> frame" where
  "setcol [] k v = [(k, v)]"
| "setcol ((k', c) # df) k v =
     (if k' = k then (k', v) # df else (k', c) # setcol df k v)"

text \<open>
  \<open>df[names]\<close> for a list of labels: for each name in turn every column of that label;
  KeyError when a name labels no column.
\<close>

fun select :: "frame \<Rightarrow> string list \<Rightarrow> exn + frame" where
  "select df [] = Inr []"
| "select df (k # ks) =
     (case filter (\<lambda>kc. fst kc = k) df of
        [] \<Rightarrow> Inl (KeyError k)
      | c # cs \<Rightarrow> and_then (select df ks) (\<lambda>rest. Inr ((c # cs) @ rest)))"

subsection \<open>pd.cut with bins=3\<close>

text \<open>\<open>np.linspace(a, b, 4)\<close>.\<close>

definition linspace4 :: "rat \<Rightarrow> rat \<Rightarrow> rat list" where
  "linspace4 a b = [a, a + (b - a) / 3, a + 2 * ((b - a) / 3), b]"

text \<open>
  The bin edges pandas derives from the column that is being cut: equal-width bins over
  the column's own minimum and maximum (NaN skipped). A column with a single distinct
  value is widened by 0.1 percent of that value on both sides; otherwise the lowest edge
  is lowered by 0.1 percent of the range.
\<close>

definition nbins_to_bins :: "pyfloat list \<Rightarrow> exn + rat list" where
  "nbins_to_bins xs =
     (if xs = [] then Inl (ValueError ''Cannot cut empty array'')
      else if PosInf \<in> set xs \<or> NegInf \<in> set xs
        then Inl (ValueError ''cannot specify integer bins when input data contains infinity'')
      else (case concat (map (\<lambda>x. case x of Fin v \<Rightarrow> [v] | _ \<Rightarrow> []) xs) of
          [] \<Rightarrow> Inl (ValueError ''Bin edges must be unique'')
        | v # vs \<Rightarrow>
            (let mn = fold min vs v; mx = fold max vs v in
             if mn = mx then
               Inr (linspace4 (mn - (if mn \<noteq> 0 then (1 / 1000) * \<bar>mn\<bar> else 1 / 1000))
                              (mx + (if mx \<noteq> 0 then (1 / 1000) * \<bar>mx\<bar> else 1 / 1000)))
             else
               (let bins = linspace4 mn mx; adj = (mx - mn) * (1 / 1000)
                in Inr (bins[0 := bins ! 0 - adj])))))"

text \<open>\<open>bins.searchsorted(x, side='left')\<close> on increasing edges.\<close>

definition searchsorted_left :: "rat list \<Rightarrow> rat \<Rightarrow> nat" where
  "searchsorted_left bins x = length (filter (\<lambda>b. b < x) bins)"

text \<open>The bin of a value: \<open>None\<close> is the missing category.\<close>

definition bin_code :: "rat list \<Rightarrow> pyfloat \<Rightarrow> nat option" where
  "bin_code bins x =
     (case x of
        Fin v \<Rightarrow>
          (let ids = searchsorted_left bins v
           in if ids = length bins \<or> ids = 0 then None else Some (ids - 1))
      | _ \<Rightarrow> None)"

definition pd_cut3 :: "pyfloat list \<Rightarrow> exn + nat option list" where
  "pd_cut3 xs = and_then (nbins_to_bins xs) (\<lambda>bins. Inr (map (bin_code bins) xs))"

definition label_cell :: "string list \<Rightarrow> nat option \<Rightarrow> pyval" where
  "label_cell labels code = (case code of None \<Rightarrow> PNumber Nan | Some i \<Rightarrow> PStr (labels ! i))"

subsection \<open>pd.get_dummies with drop_first=True\<close>

text \<open>
  One boolean indicator column per category of the categorical column except the first,
  whether or not the category occurs in the column.
\<close>

definition dummy_columns_of :: "string \<Rightarrow> string list \<Rightarrow> nat option list \<Rightarrow> frame" where
  "dummy_columns_of pre labels codes =
     map (\<lambda>i. (pre @ ''_'' @ labels ! i, map (\<lambda>c. PBool (c = Some i)) codes))
       [1..<length labels]"

text \<open>
  The encoded columns are dropped and the indicator columns appended. The categories and
  codes of each encoded column are those \<open>pd.cut\<close> has just stored in it.
\<close>

definition get_dummies :: "frame \<Rightarrow> (string \<times> string list \<times> nat option list) list \<Rightarrow> frame" where
  "get_dummies df cats =
     filter (\<lambda>kc. fst kc \<notin> set (map fst cats)) df
     @ concat (map (\<lambda>(k, labels, codes). dummy_columns_of k labels codes) cats)"

section \<open>The prediction service (app.py)\<close>

record datetime =
  year :: int
  month :: nat
  day :: nat
  hour :: nat
  minute :: nat
  second :: nat

text \<open>
  What the serving process reads besides the request: the wall clock, the artifacts loaded
  at start (the canonical feature list, the fitted scaler and the fitted regressor, both
  opaque: either may raise) and the two library parsers of strs. The regressor returns
  real numbers.
\<close>

record env =
  now :: datetime
  feature_names :: "string list"
  scaler_transform :: "frame \<Rightarrow> exn + pyfloat list list"
  model_predict :: "pyfloat list list \<Rightarrow> exn + rat list"
  str_float :: "string \<Rightarrow> pyfloat option"
  str_numeric :: "string \<Rightarrow> pyfloat"

definition numeric_fields :: "string list" where
  "numeric_fields =
     [''bedrooms'', ''bathrooms'', ''living_area'', ''lot_area'', ''floors'',
      ''waterfront'', ''views'', ''condition'', ''grade'', ''house_area'',
      ''basement_area'', ''built_year'', ''renovation_year'', ''latitude'',
      ''longitude'', ''living_area_renovated'', ''lot_area_renovated'',
      ''schools_nearby'', ''airport_distance'']"

text \<open>The loop over \<open>numeric_fields\<close>: every such column that exists is coerced.\<close>

definition coerce_numeric :: "(string \<Rightarrow> pyfloat) \<Rightarrow> frame \<Rightarrow> frame" where
  "coerce_numeric p df =
     fold (\<lambda>field d. case map_of d field of
              None \<Rightarrow> d
            | Some c \<Rightarrow> setcol d field (map (to_numeric p) c))
       numeric_fields df"

text \<open>
  The loop over \<open>feature_names\<close>: a feature that labels no column gets a column of
  zeros.
\<close>

definition fill_missing :: "string list \<Rightarrow> frame \<Rightarrow> frame" where
  "fill_missing names df =
     fold (\<lambda>feature d.
             if feature \<notin> set (columns d)
             then setcol d feature (replicate (nrows d) (PNumber (Fin 0)))
             else d)
       names df"

text \<open>The last two steps of \<open>create_features_from_input\<close>: fill, then select.\<close>

definition align :: "string list \<Rightarrow> frame \<Rightarrow> exn + frame" where
  "align names df = select (fill_missing names df) names"

text \<open>
  The frame \<open>df_encoded\<close> of \<open>create_features_from_input\<close>, before the feature list
  is applied. The year is read from the wall clock.
\<close>

definition engineer_input :: "env \<Rightarrow> pydict \<Rightarrow> exn + frame" where
  "engineer_input env data =
     (let df = coerce_numeric (str_numeric env) (DataFrame1 data);
          current_year = Fin (of_int (year (now env)))
      in
      and_then (getnum df ''built_year'') (\<lambda>built.
      let df = setcol df ''age'' (map (\<lambda>b. PNumber (fl_sub current_year b)) built) in
      and_then (getnum df ''renovation_year'') (\<lambda>reno.
      and_then (getnum df ''age'') (\<lambda>age.
      let df = setcol df ''years_since_renovation''
                 (map2 (\<lambda>r a. PNumber (if fl_gt0 r then fl_sub current_year r else a)) reno age) in
      and_then (getnum df ''basement_area'') (\<lambda>basement.
      let df = setcol df ''has_basement''
                 (map (\<lambda>b. PNumber (Fin (if fl_gt0 b then 1 else 0))) basement) in
      and_then (getnum df ''renovation_year'') (\<lambda>reno.
      let df = setcol df ''is_renovated''
                 (map (\<lambda>r. PNumber (Fin (if fl_gt0 r then 1 else 0))) reno) in
      and_then (getnum df ''waterfront'') (\<lambda>waterfront.
      and_then (traverse astype_int waterfront) (\<lambda>has_waterfront.
      let df = setcol df ''has_waterfront'' has_waterfront in
      and_then (getnum df ''living_area'') (\<lambda>living.
      and_then (getnum df ''lot_area'') (\<lambda>lot.
      let df = setcol df ''living_to_lot_ratio''
                 (map2 (\<lambda>a l. PNumber (fl_div a (fl_add l (Fin 1)))) living lot) in
      and_then (getnum df ''basement_area'') (\<lambda>basement.
      and_then (getnum df ''house_area'') (\<lambda>house.
      let df = setcol df ''basement_to_house_ratio''
                 (map2 (\<lambda>b h. PNumber (fl_div b (fl_add h (Fin 1)))) basement house) in
      and_then (getnum df ''condition'') (\<lambda>condition.
      and_then (pd_cut3 condition) (\<lambda>condition_codes.
      let df = setcol df ''condition_category''
                 (map (label_cell [''Poor'', ''Average'', ''Good'']) condition_codes) in
      and_then (getnum df ''grade'') (\<lambda>grade.
      and_then (pd_cut3 grade) (\<lambda>grade_codes.
      let df = setcol df ''grade_category''
                 (map (label_cell [''Low'', ''Medium'', ''High'']) grade_codes) in
      and_then (getnum df ''views'') (\<lambda>views.
      and_then (pd_cut3 views) (\<lambda>views_codes.
      let df = setcol df ''views_category''
                 (map (label_cell [''None'', ''Some'', ''Excellent'']) views_codes) in
      Inr (get_dummies df
             [(''condition_category'', [''Poor'', ''Average'', ''Good''], condition_codes),
              (''grade_category'', [''Low'', ''Medium'', ''High''], grade_codes),
              (''views_category'', [''None'', ''Some'', ''Excellent''], views_codes)])
      ))))))))))))))))))"

definition create_features_from_input :: "env \<Rightarrow> pydict \<Rightarrow> exn + frame" where
  "create_features_from_input env data =
     and_then (engineer_input env data) (align (feature_names env))"

text \<open>The labels of the six indicator columns that \<open>get_dummies\<close> generates.\<close>

definition dummy_names :: "string list" where
  "dummy_names =
     [''condition_category_Average'', ''condition_category_Good'',
      ''grade_category_Medium'', ''grade_category_High'',
      ''views_category_Some'', ''views_category_Excellent'']"

subsection \<open>POST /predict\<close>

text \<open>
  A response: the success body with its \<open>predicted_price\<close>, or a status code with the
  \<open>error\<close> message. The metrics and model info echoed in the success body are left
  out; the metrics document is taken to hold the keys that the training run writes, so
  that building the body does not raise.
\<close>

datatype response = Predicted rat | Error nat string

definition required_fields :: "string list" where
  "required_fields =
     [''bedrooms'', ''bathrooms'', ''living_area'', ''lot_area'', ''floors'',
      ''waterfront'', ''views'', ''condition'', ''grade'', ''house_area'',
      ''basement_area'', ''built_year'', ''renovation_year'', ''latitude'',
      ''longitude'', ''living_area_renovated'', ''lot_area_renovated'',
      ''schools_nearby'', ''airport_distance'']"

definition validations :: "(string \<times> int \<times> int) list" where
  "validations =
     [(''bedrooms'', 0, 20),
      (''bathrooms'', 0, 20),
      (''living_area'', 100, 50000),
      (''lot_area'', 100, 1000000),
      (''floors'', 1, 10),
      (''waterfront'', 0, 1),
      (''views'', 0, 10),
      (''condition'', 1, 10),
      (''grade'', 1, 15),
      (''house_area'', 100, 50000),
      (''basement_area'', 0, 10000),
      (''built_year'', 1800, 2024),
      (''renovation_year'', 0, 2024),
      (''schools_nearby'', 0, 50),
      (''airport_distance'', 0, 500)]"

text \<open>\<open>field not in data or data[field] == ''\<close>.\<close>

definition is_missing :: "pydict \<Rightarrow> string \<Rightarrow> bool" where
  "is_missing data field =
     (case map_of data field of None \<Rightarrow> True | Some v \<Rightarrow> v = PStr [])"

definition missing_fields :: "pydict \<Rightarrow> string list" where
  "missing_fields data = filter (is_missing data) required_fields"

definition range_message :: "string \<Rightarrow> int \<Rightarrow> int \<Rightarrow> string" where
  "range_message field min_val max_val =
     field @ '' must be between '' @ str_int min_val @ '' and '' @ str_int max_val"

definition invalid_message :: "string \<Rightarrow> string" where
  "invalid_message field = ''Invalid '' @ field @ '' value. Must be a number.''"

text \<open>
  The loop over the validation table: the first failing field returns its 400 response.
  Only ValueError and TypeError of \<open>float()\<close> are caught here; the KeyError of
  \<open>data[field]\<close> is not.
\<close>

fun validate_ranges ::
  "(string \<Rightarrow> pyfloat option) \<Rightarrow> pydict \<Rightarrow> (string \<times> int \<times> int) list \<Rightarrow> exn + response option"
where
  "validate_ranges p data [] = Inr None"
| "validate_ranges p data ((field, min_val, max_val) # rest) =
     (case map_of data field of
        None \<Rightarrow> Inl (KeyError field)
      | Some v \<Rightarrow>
         (case py_float p v of
            Inr val \<Rightarrow>
              if \<not> fl_between min_val val max_val
              then Inr (Some (Error 400 (range_message field min_val max_val)))
              else validate_ranges p data rest
          | Inl (ValueError m) \<Rightarrow> Inr (Some (Error 400 (invalid_message field)))
          | Inl (TypeError m) \<Rightarrow> Inr (Some (Error 400 (invalid_message field)))
          | Inl e \<Rightarrow> Inl e))"

text \<open>\<open>model.predict(X_scaled)[0]\<close>.\<close>

definition first_prediction :: "rat list \<Rightarrow> exn + rat" where
  "first_prediction ys =
     (case ys of [] \<Rightarrow> Inl (IndexError ''index 0 is out of bounds'') | y # rest \<Rightarrow> Inr y)"

text \<open>The body of the \<open>try\<close> block of \<open>predict\<close>: \<open>Inl\<close> is an exception that leaves it.\<close>

definition predict_try :: "env \<Rightarrow> pydict \<Rightarrow> exn + response" where
  "predict_try env data =
     (if data = [] then Inr (Error 400 ''No data provided'')
      else
        (let missing = missing_fields data in
         if missing \<noteq> []
         then Inr (Error 400 (''Missing required fields: '' @ join '', '' missing))
         else
           and_then (validate_ranges (str_float env) data validations) (\<lambda>failed.
           case failed of
             Some r \<Rightarrow> Inr r
           | None \<Rightarrow>
               and_then (create_features_from_input env data) (\<lambda>X.
               and_then (scaler_transform env X) (\<lambda>X_scaled.
               and_then (model_predict env X_scaled) (\<lambda>ys.
               and_then (first_prediction ys) (\<lambda>prediction.
               Inr (Predicted (if prediction < 0 then 0 else prediction)))))))))"

text \<open>The \<open>except Exception\<close> handler turns what is left into a 500 response.\<close>

definition predict :: "env \<Rightarrow> pydict \<Rightarrow> response" where
  "predict env data =
     (case predict_try env data of
        Inl e \<Rightarrow> Error 500 (''Internal server error: '' @ str_exn e)
      | Inr r \<Rightarrow> r)"

text \<open>
  The composition Feature Engineer, Aligner, Scaler of \<open>predict\<close>: the scaled vector
  handed to the regressor.
\<close>

definition scaled_features :: "env \<Rightarrow> pydict \<Rightarrow> exn + pyfloat list list" where
  "scaled_features env data =
     and_then (create_features_from_input env data) (scaler_transform env)"

section \<open>The training pipeline (train_and_save_model.py)\<close>

definition column_mapping :: "(string \<times> string) list" where
  "column_mapping =
     [(''number of bedrooms'', ''bedrooms''),
      (''number of bathrooms'', ''bathrooms''),
      (''living area'', ''living_area''),
      (''lot area'', ''lot_area''),
      (''number of floors'', ''floors''),
      (''waterfront present'', ''waterfront''),
      (''number of views'', ''views''),
      (''condition of the house'', ''condition''),
      (''grade of the house'', ''grade''),
      (''Area of the house(excluding basement)'', ''house_area''),
      (''Area of the basement'', ''basement_area''),
      (''Built Year'', ''built_year''),
      (''Renovation Year'', ''renovation_year''),
      (''Postal Code'', ''postal_code''),
      (''Lattitude'', ''latitude''),
      (''Longitude'', ''longitude''),
      (''living_area_renov'', ''living_area_renovated''),
      (''lot_area_renov'', ''lot_area_renovated''),
      (''Number of schools nearby'', ''schools_nearby''),
      (''Distance from the airport'', ''airport_distance''),
      (''Price'', ''price'')]"

text \<open>\<open>df.rename(columns=column_mapping)\<close>.\<close>

definition rename_columns :: "frame \<Rightarrow> frame" where
  "rename_columns df =
     map (\<lambda>(k, c). (case map_of column_mapping k of None \<Rightarrow> k | Some k' \<Rightarrow> k', c)) df"

definition categorical_columns :: "string list" where
  "categorical_columns = [''condition_category'', ''grade_category'', ''views_category'']"

definition feature_columns :: "string list" where
  "feature_columns =
     [''bedrooms'', ''bathrooms'', ''living_area'', ''lot_area'', ''floors'',
      ''waterfront'', ''views'', ''condition'', ''grade'', ''house_area'',
      ''basement_area'', ''age'', ''years_since_renovation'', ''latitude'',
      ''longitude'', ''living_area_renovated'', ''lot_area_renovated'',
      ''schools_nearby'', ''airport_distance'', ''has_basement'', ''is_renovated'',
      ''has_waterfront'', ''living_to_lot_ratio'', ''basement_to_house_ratio'']"

text \<open>
  \<open>create_features\<close> on the whole historical frame: the encoded frame and the list of
  available features. The year is read from the wall clock of the training run; the bins
  of the three bucketed columns come from the whole column.
\<close>

definition create_features :: "datetime \<Rightarrow> frame \<Rightarrow> exn + (frame \<times> string list)" where
  "create_features clock df0 =
     (let df = rename_columns df0;
          current_year = Fin (of_int (year clock))
      in
      and_then (getnum df ''built_year'') (\<lambda>built.
      let df = setcol df ''age'' (map (\<lambda>b. PNumber (fl_sub current_year b)) built) in
      and_then (getnum df ''renovation_year'') (\<lambda>reno.
      and_then (getnum df ''age'') (\<lambda>age.
      let df = setcol df ''years_since_renovation''
                 (map2 (\<lambda>r a. PNumber (if fl_gt0 r then fl_sub current_year r else a)) reno age) in
      and_then (getnum df ''basement_area'') (\<lambda>basement.
      let df = setcol df ''has_basement''
                 (map (\<lambda>b. PNumber (Fin (if fl_gt0 b then 1 else 0))) basement) in
      and_then (getnum df ''renovation_year'') (\<lambda>reno.
      let df = setcol df ''is_renovated''
                 (map (\<lambda>r. PNumber (Fin (if fl_gt0 r then 1 else 0))) reno) in
      and_then (getnum df ''waterfront'') (\<lambda>waterfront.
      and_then (traverse astype_int waterfront) (\<lambda>has_waterfront.
      let df = setcol df ''has_waterfront'' has_waterfront in
      and_then (getnum df ''living_area'') (\<lambda>living.
      and_then (getnum df ''lot_area'') (\<lambda>lot.
      let df = setcol df ''living_to_lot_ratio''
                 (map2 (\<lambda>a l. PNumber (fl_div a (fl_add l (Fin 1)))) living lot) in
      and_then (getnum df ''basement_area'') (\<lambda>basement.
      and_then (getnum df ''house_area'') (\<lambda>house.
      let df = setcol df ''basement_to_house_ratio''
                 (map2 (\<lambda>b h. PNumber (fl_div b (fl_add h (Fin 1)))) basement house) in
      and_then (getnum df ''price'') (\<lambda>price.
      and_then (getnum df ''living_area'') (\<lambda>living.
      let df = setcol df ''price_per_sqft''
                 (map2 (\<lambda>p a. PNumber (fl_div p (fl_add a (Fin 1)))) price living) in
      and_then (getnum df ''condition'') (\<lambda>condition.
      and_then (pd_cut3 condition) (\<lambda>condition_codes.
      let df = setcol df ''condition_category''
                 (map (label_cell [''Poor'', ''Average'', ''Good'']) condition_codes) in
      and_then (getnum df ''grade'') (\<lambda>grade.
      and_then (pd_cut3 grade) (\<lambda>grade_codes.
      let df = setcol df ''grade_category''
                 (map (label_cell [''Low'', ''Medium'', ''High'']) grade_codes) in
      and_then (getnum df ''views'') (\<lambda>views.
      and_then (pd_cut3 views) (\<lambda>views_codes.
      let df = setcol df ''views_category''
                 (map (label_cell [''None'', ''Some'', ''Excellent'']) views_codes);
          df_encoded = get_dummies df
             [(''condition_category'', [''Poor'', ''Average'', ''Good''], condition_codes),
              (''grade_category'', [''Low'', ''Medium'', ''High''], grade_codes),
              (''views_category'', [''None'', ''Some'', ''Excellent''], views_codes)];
          dummy_columns = filter (\<lambda>col. \<exists>cat \<in> set categorical_columns. str_contains col cat)
                            (columns df_encoded);
          available_features = filter (\<lambda>col. col \<in> set (columns df_encoded))
                                 (feature_columns @ dummy_columns)
      in Inr (df_encoded, available_features)
      ))))))))))))))))))))"

text \<open>
  The feature matrix of \<open>main\<close>, \<open>df_processed[feature_columns]\<close>, with the feature list
  that is persisted for the service.
\<close>

definition training_matrix :: "datetime \<Rightarrow> frame \<Rightarrow> exn + (frame \<times> string list)" where
  "training_matrix clock df0 =
     and_then (create_features clock df0) (\<lambda>(df_processed, feature_cols).
     and_then (select df_processed feature_cols) (\<lambda>X. Inr (X, feature_cols)))"

text \<open>Row \<open>i\<close> of a frame: the cells of that row, column by column.\<close>

definition frame_row :: "frame \<Rightarrow> nat \<Rightarrow> pyval list" where
  "frame_row df i = map (\<lambda>kc. snd kc ! i) df"

section \<open>Reading the validator\<close>



section \<open>Example inputs\<close>

text \<open>A scaler with mean 0 and scale 1 on every feature, for a one-row frame.\<close>

definition unit_scaler :: "frame \<Rightarrow> exn + pyfloat list list" where
  "unit_scaler X = and_then (traverse as_num (frame_row X 0)) (\<lambda>row. Inr [row])"

text \<open>The valid end-to-end example of the specification.\<close>

definition example_request :: pydict where
  "example_request =
     [(''bedrooms'', PNumber (Fin 3)), (''bathrooms'', PNumber (Fin 2)),
      (''living_area'', PNumber (Fin 1800)), (''lot_area'', PNumber (Fin 5000)),
      (''floors'', PNumber (Fin 1)), (''waterfront'', PNumber (Fin 0)),
      (''views'', PNumber (Fin 0)), (''condition'', PNumber (Fin 3)),
      (''grade'', PNumber (Fin 7)), (''house_area'', PNumber (Fin 1800)),
      (''basement_area'', PNumber (Fin 0)), (''built_year'', PNumber (Fin 1990)),
      (''renovation_year'', PNumber (Fin 0)), (''latitude'', PNumber (Fin (95 / 2))),
      (''longitude'', PNumber (Fin (- 611 / 5))),
      (''living_area_renovated'', PNumber (Fin 1800)),
      (''lot_area_renovated'', PNumber (Fin 5000)),
      (''schools_nearby'', PNumber (Fin 2)), (''airport_distance'', PNumber (Fin 15))]"

definition example_features :: "string list" where
  "example_features =
     feature_columns @
     [''condition_category_Average'', ''condition_category_Good'',
      ''grade_category_Medium'', ''grade_category_High'',
      ''views_category_Some'', ''views_category_Excellent'']"

text \<open>
  A serving process in June 2024 whose regressor is a stub that returns -500. No
  request of the examples holds a non-empty str, so the two str parsers are never asked.
\<close>

definition example_env :: env where
  "example_env =
     \<lparr> now = \<lparr> year = 2024, month = 6, day = 1, hour = 12, minute = 0, second = 0 \<rparr>,
       feature_names = example_features,
       scaler_transform = unit_scaler,
       model_predict = (\<lambda>X. Inr [- 500]),
       str_float = (\<lambda>s. None),
       str_numeric = (\<lambda>s. Nan) \<rparr>"

text \<open>The same process with a regressor that raises.\<close>

definition failing_env :: env where
  "failing_env = example_env\<lparr>model_predict := (\<lambda>X. Inl (LibraryError ''boom''))\<rparr>"

definition with_field :: "string \<Rightarrow> pyval \<Rightarrow> pydict \<Rightarrow> pydict" where
  "with_field k v data = map (\<lambda>kv. if fst kv = k then (k, v) else kv) data"

definition without_field :: "string \<Rightarrow> pydict \<Rightarrow> pydict" where
  "without_field k data = filter (\<lambda>kv. fst kv \<noteq> k) data"

text \<open>The same process read on New Year's Day 2025.\<close>

definition next_year_env :: env where
  "next_year_env =
     example_env\<lparr>now := \<lparr> year = 2025, month = 1, day = 1, hour = 0, minute = 0, second = 0 \<rparr>\<rparr>"

text \<open>The failing process read in the last second of 2024.\<close>

definition december_env :: env where
  "december_env =
     failing_env\<lparr>now := \<lparr> year = 2024, month = 12, day = 31, hour = 23, minute = 59, second = 59 \<rparr>\<rparr>"




text \<open>A historical data set of two sales, under the column names of the CSV file.\<close>

definition historical :: frame where
  "historical =
     [(''id'', [PNumber (Fin 1), PNumber (Fin 2)]),
      (''number of bedrooms'', [PNumber (Fin 2), PNumber (Fin 4)]),
      (''number of bathrooms'', [PNumber (Fin 1), PNumber (Fin 3)]),
      (''living area'', [PNumber (Fin 900), PNumber (Fin 2600)]),
      (''lot area'', [PNumber (Fin 4000), PNumber (Fin 9000)]),
      (''number of floors'', [PNumber (Fin 1), PNumber (Fin 2)]),
      (''waterfront present'', [PNumber (Fin 0), PNumber (Fin 1)]),
      (''number of views'', [PNumber (Fin 0), PNumber (Fin 4)]),
      (''condition of the house'', [PNumber (Fin 1), PNumber (Fin 5)]),
      (''grade of the house'', [PNumber (Fin 4), PNumber (Fin 10)]),
      (''Area of the house(excluding basement)'', [PNumber (Fin 900), PNumber (Fin 2000)]),
      (''Area of the basement'', [PNumber (Fin 0), PNumber (Fin 600)]),
      (''Built Year'', [PNumber (Fin 1950), PNumber (Fin 2005)]),
      (''Renovation Year'', [PNumber (Fin 0), PNumber (Fin 2015)]),
      (''Postal Code'', [PNumber (Fin 122003), PNumber (Fin 122004)]),
      (''Lattitude'', [PNumber (Fin (105 / 2)), PNumber (Fin (211 / 4))]),
      (''Longitude'', [PNumber (Fin (- 114)), PNumber (Fin (- 229 / 2))]),
      (''living_area_renov'', [PNumber (Fin 1000), PNumber (Fin 2500)]),
      (''lot_area_renov'', [PNumber (Fin 4100), PNumber (Fin 8800)]),
      (''Number of schools nearby'', [PNumber (Fin 1), PNumber (Fin 3)]),
      (''Distance from the airport'', [PNumber (Fin 60), PNumber (Fin 25)]),
      (''Price'', [PNumber (Fin 210000), PNumber (Fin 985000)])]"

text \<open>The request that carries the nineteen raw fields of row \<open>i\<close> of a historical frame.\<close>

definition raw_record :: "frame \<Rightarrow> nat \<Rightarrow> pydict" where
  "raw_record df i =
     concat (map (\<lambda>field. case map_of (rename_columns df) field of
                             None \<Rightarrow> []
                           | Some c \<Rightarrow> [(field, c ! i)]) required_fields)"

section \<open>The validator\<close>








lemma predict_missing:
  "data \<noteq> [] \<Longrightarrow> missing_fields data \<noteq> [] \<Longrightarrow>
   predict env data = Error 400 (''Missing required fields: '' @ join '', '' (missing_fields data))"
  by (simp add: predict_def predict_try_def)



subsection \<open>Field names inside messages\<close>

lemma starts_with_append: "starts_with (f @ b) f"
  by (induction f) auto

lemma str_contains_here: "str_contains (f @ b) f"
  by (cases "f @ b") (use starts_with_append[of f b] in auto)

lemma str_contains_append: "str_contains (a @ f @ b) f"
  by (induction a) (auto simp: str_contains_here)

lemma join_names: "f \<in> set xs \<Longrightarrow> \<exists>a b. join sep xs = a @ f @ b"
proof (induction sep xs rule: join.induct)
  case (1 sep)
  then show ?case by simp
next
  case (2 sep x)
  then have "join sep [x] = [] @ f @ []" by simp
  then show ?case by blast
next
  case (3 sep x y ys)
  show ?case
  proof (cases "f = x")
    case True
    then have "join sep (x # y # ys) = [] @ f @ (sep @ join sep (y # ys))" by simp
    then show ?thesis by blast
  next
    case False
    with 3 obtain a b where "join sep (y # ys) = a @ f @ b" by auto
    then have "join sep (x # y # ys) = (x @ sep @ a) @ f @ b" by simp
    then show ?thesis by blast
  qed
qed

lemma message_names:
  assumes "f \<in> set xs"
  shows "str_contains (pre @ join sep xs) f"
proof -
  from join_names[OF assms] obtain a b where "join sep xs = a @ f @ b" by blast
  then have "pre @ join sep xs = (pre @ a) @ f @ b" by simp
  then show ?thesis using str_contains_append[of "pre @ a" f b] by simp
qed

lemma map_of_without_field: "k' \<noteq> k \<Longrightarrow> map_of (without_field k data) k' = map_of data k'"
  by (induction data) (auto simp: without_field_def)

lemma map_of_without_field_same: "map_of (without_field k data) k = None"
  by (induction data) (auto simp: without_field_def)

section \<open>Claims about the request handler\<close>

text \<open>
  C2. When a request passes validation and the pipeline reaches the regressor, the
  returned \<open>predicted_price\<close> is at least 0: it is exactly 0 when the regressor's output
  is negative and the regressor's output otherwise.
\<close>

theorem predict_clamps_price:
  assumes "data \<noteq> []" and "missing_fields data = []"
    and "validate_ranges (str_float env) data validations = Inr None"
    and "create_features_from_input env data = Inr X"
    and "scaler_transform env X = Inr X_scaled"
    and "model_predict env X_scaled = Inr (y # ys)"
  shows "\<exists>p. predict env data = Predicted p \<and> 0 \<le> p
           \<and> (y < 0 \<longrightarrow> p = 0) \<and> (\<not> y < 0 \<longrightarrow> p = y)"
  using assms by (simp add: predict_def predict_try_def and_then_def first_prediction_def)

theorem predict_clamps_price_witness:
  "missing_fields example_request = []
   \<and> validate_ranges (str_float example_env) example_request validations = Inr None
   \<and> predict example_env example_request = Predicted 0"
proof -
  define X where
    "X = (case create_features_from_input example_env example_request of
            Inr X \<Rightarrow> X | Inl e \<Rightarrow> [])"
  define Xs where "Xs = (case scaler_transform example_env X of Inr Z \<Rightarrow> Z | Inl e \<Rightarrow> [])"
  have h1: "example_request \<noteq> []" by (simp add: example_request_def)
  have h2: "missing_fields example_request = []" by code_simp
  have h3: "validate_ranges (str_float example_env) example_request validations = Inr None"
    by code_simp
  have h4: "create_features_from_input example_env example_request = Inr X"
    unfolding X_def by code_simp
  have h5: "scaler_transform example_env X = Inr Xs"
    unfolding Xs_def X_def by code_simp
  have h6: "model_predict example_env Xs = Inr ((- 500) # [])"
    by (simp add: example_env_def)
  from predict_clamps_price[OF h1 h2 h3 h4 h5 h6] h2 h3 show ?thesis by auto
qed

text \<open>
  C4, as stated, fails on the empty body: all nineteen fields are missing, and the 400
  message is "No data provided", which names none of them.
\<close>

theorem empty_body_names_no_field:
  "missing_fields [] = required_fields
   \<and> predict example_env [] = Error 400 ''No data provided''
   \<and> \<not> str_contains ''No data provided'' ''bedrooms''"
  by code_simp

text \<open>
  C4, amended. For every non-empty body with at least one required field missing (absent
  or the empty string), the response is the 400 error "Missing required fields: "
  followed by all the missing fields, and every missing field occurs in the message.
\<close>

theorem missing_fields_all_named:
  assumes "data \<noteq> []" and "missing_fields data \<noteq> []"
  shows "predict env data
           = Error 400 (''Missing required fields: '' @ join '', '' (missing_fields data))
     \<and> (\<forall>f \<in> set required_fields. is_missing data f \<longrightarrow>
           str_contains (''Missing required fields: '' @ join '', '' (missing_fields data)) f)"
proof -
  have "str_contains (''Missing required fields: '' @ join '', '' (missing_fields data)) f"
    if "f \<in> set required_fields" and "is_missing data f" for f
  proof -
    from that have "f \<in> set (missing_fields data)" by (simp add: missing_fields_def)
    then show ?thesis by (rule message_names)
  qed
  with predict_missing[OF assms] show ?thesis by blast
qed

theorem missing_fields_all_named_witness:
  "predict example_env (without_field ''bedrooms'' (without_field ''grade'' example_request))
     = Error 400 ''Missing required fields: bedrooms, grade''
   \<and> str_contains ''Missing required fields: bedrooms, grade'' ''bedrooms''
   \<and> str_contains ''Missing required fields: bedrooms, grade'' ''grade''"
proof -
  let ?d = "without_field ''bedrooms'' (without_field ''grade'' example_request)"
  have h1: "?d \<noteq> []" by code_simp
  have h2: "missing_fields ?d \<noteq> []" by code_simp
  have m: "''Missing required fields: '' @ join '', '' (missing_fields ?d)
             = ''Missing required fields: bedrooms, grade''"
    by code_simp
  have r: "''bedrooms'' \<in> set required_fields" "''grade'' \<in> set required_fields"
    by code_simp+
  have i: "is_missing ?d ''bedrooms''" "is_missing ?d ''grade''" by code_simp+
  from missing_fields_all_named[OF h1 h2, of example_env] r i show ?thesis
    unfolding m by blast
qed

text \<open>
  C10. A required field that is present with the empty string as its value is counted
  among the missing fields exactly as if it were absent: the list of missing fields is
  that of the body without the field, and the response is the aggregated 400
  missing-fields error, whose message names the field.
\<close>

theorem empty_string_counts_as_missing:
  assumes "field \<in> set required_fields" and "map_of data field = Some (PStr [])"
  shows "field \<in> set (missing_fields data)
     \<and> missing_fields data = missing_fields (without_field field data)
     \<and> predict env data
         = Error 400 (''Missing required fields: '' @ join '', '' (missing_fields data))
     \<and> str_contains (''Missing required fields: '' @ join '', '' (missing_fields data)) field"
proof -
  have m: "field \<in> set (missing_fields data)"
    using assms by (simp add: missing_fields_def is_missing_def)
  have "is_missing data f = is_missing (without_field field data) f" for f
    using assms(2)
    by (cases "f = field")
       (simp_all add: is_missing_def map_of_without_field map_of_without_field_same)
  then have "is_missing data = is_missing (without_field field data)"
    by (rule ext)
  then have e: "missing_fields data = missing_fields (without_field field data)"
    by (simp add: missing_fields_def)
  from assms(2) have d: "data \<noteq> []" by auto
  from m have n: "missing_fields data \<noteq> []" by auto
  show ?thesis using m e predict_missing[OF d n] message_names[OF m] by blast
qed

theorem empty_string_counts_as_missing_witness:
  "map_of (with_field ''bedrooms'' (PStr []) example_request) ''bedrooms'' = Some (PStr [])
   \<and> predict example_env (with_field ''bedrooms'' (PStr []) example_request)
       = Error 400 ''Missing required fields: bedrooms''
   \<and> predict example_env (with_field ''bedrooms'' (PStr []) example_request)
       = predict example_env (without_field ''bedrooms'' example_request)"
proof -
  let ?d = "with_field ''bedrooms'' (PStr []) example_request"
  have h1: "''bedrooms'' \<in> set required_fields" by code_simp
  have h2: "map_of ?d ''bedrooms'' = Some (PStr [])" by code_simp
  have m: "''Missing required fields: '' @ join '', '' (missing_fields ?d)
             = ''Missing required fields: bedrooms''"
    by code_simp
  have a: "predict example_env (without_field ''bedrooms'' example_request)
             = Error 400 ''Missing required fields: bedrooms''"
    by code_simp
  from empty_string_counts_as_missing[OF h1 h2, of example_env] h2 a show ?thesis
    unfolding m by simp
qed

section \<open>Lookups in data frames\<close>

lemma columns_setcol:
  "columns (setcol df k v) = (if k \<in> set (columns df) then columns df else columns df @ [k])"
  by (induction df) (force simp: columns_def)+

lemma map_of_setcol: "map_of (setcol df k v) k' = (if k' = k then Some v else map_of df k')"
  by (induction df) auto

lemma map_of_None_columns: "map_of df k = None \<longleftrightarrow> k \<notin> set (columns df)"
  by (simp add: columns_def map_of_eq_None_iff)

lemma nrows_setcol_new:
  "k \<notin> set (columns df) \<Longrightarrow> nrows (setcol df k (replicate (nrows df) z)) = nrows df"
  by (cases df) (auto simp: nrows_def columns_def)

lemma fill_missing_Nil: "fill_missing [] df = df"
  by (simp add: fill_missing_def)

lemma fill_missing_Cons:
  "fill_missing (f # names) df =
     fill_missing names (if f \<notin> set (columns df)
        then setcol df f (replicate (nrows df) (PNumber (Fin 0))) else df)"
  by (simp add: fill_missing_def)

lemma fill_missing_props:
  "distinct (columns df) \<Longrightarrow>
   distinct (columns (fill_missing names df))
   \<and> nrows (fill_missing names df) = nrows df
   \<and> (\<forall>f. map_of (fill_missing names df) f =
        (if f \<in> set names \<and> f \<notin> set (columns df)
         then Some (replicate (nrows df) (PNumber (Fin 0))) else map_of df f))"
proof (induction names arbitrary: df)
  case Nil
  then show ?case by (simp add: fill_missing_Nil)
next
  case (Cons n names)
  show ?case
  proof (cases "n \<in> set (columns df)")
    case True
    with Cons.IH[OF Cons.prems] show ?thesis
      by (auto simp: fill_missing_Cons)
  next
    case False
    let ?d = "setcol df n (replicate (nrows df) (PNumber (Fin 0)))"
    have d: "distinct (columns ?d)" using Cons.prems False by (simp add: columns_setcol)
    have n: "nrows ?d = nrows df" using False by (rule nrows_setcol_new)
    have c: "set (columns ?d) = insert n (set (columns df))" using False by (simp add: columns_setcol)
    from Cons.IH[OF d] False show ?thesis
      by (auto simp: fill_missing_Cons n c map_of_setcol map_of_None_columns)
  qed
qed

lemma filter_label_distinct:
  "distinct (map fst df) \<Longrightarrow> map_of df k = Some c \<Longrightarrow> filter (\<lambda>kc. fst kc = k) df = [(k, c)]"
proof (induction df)
  case Nil
  then show ?case by simp
next
  case (Cons a df)
  show ?case
  proof (cases "fst a = k")
    case True
    with Cons.prems have "k \<notin> fst ` set df" by auto
    then have "filter (\<lambda>kc. fst kc = k) df = []" by (auto simp: filter_empty_conv)
    with True Cons.prems show ?thesis by (cases a) auto
  next
    case False
    with Cons show ?thesis by auto
  qed
qed

lemma select_distinct:
  "distinct (columns df) \<Longrightarrow> set ks \<subseteq> set (columns df) \<Longrightarrow>
   select df ks = Inr (map (\<lambda>k. (k, the (map_of df k))) ks)"
proof (induction ks)
  case Nil
  then show ?case by simp
next
  case (Cons k ks)
  from Cons.prems obtain c where c: "map_of df k = Some c"
    using map_of_None_columns[of df k] by (cases "map_of df k") auto
  from Cons.prems have "filter (\<lambda>kc. fst kc = k) df = [(k, c)]"
    using filter_label_distinct[OF _ c] by (simp add: columns_def)
  with Cons c show ?case by (simp add: and_then_def)
qed

lemma align_selects:
  assumes "distinct (columns df)"
  shows "align names df
           = Inr (map (\<lambda>k. (k, the (map_of (fill_missing names df) k))) names)"
proof -
  let ?d = "fill_missing names df"
  from fill_missing_props[OF assms, of names]
  have d: "distinct (columns ?d)"
    and m: "\<And>f. map_of ?d f = (if f \<in> set names \<and> f \<notin> set (columns df)
         then Some (replicate (nrows df) (PNumber (Fin 0))) else map_of df f)"
    by auto
  have s: "set names \<subseteq> set (columns ?d)"
  proof
    fix f assume "f \<in> set names"
    then have "map_of ?d f \<noteq> None"
      using map_of_None_columns[of df f] by (cases "f \<in> set (columns df)") (simp_all add: m)
    then show "f \<in> set (columns ?d)" by (simp add: map_of_None_columns)
  qed
  from select_distinct[OF d s] show ?thesis by (simp add: align_def)
qed

section \<open>Cutting a one-row column\<close>

lemma searchsorted_single:
  fixes v d :: rat
  assumes "0 < d"
  shows "searchsorted_left (linspace4 (v - d) (v + d)) v = 2"
  using assms by (simp add: searchsorted_left_def linspace4_def field_simps)

lemma nbins_single:
  "nbins_to_bins [Fin v] =
     Inr (linspace4 (v - (if v \<noteq> 0 then (1 / 1000) * \<bar>v\<bar> else 1 / 1000))
                    (v + (if v \<noteq> 0 then (1 / 1000) * \<bar>v\<bar> else 1 / 1000)))"
  by (simp add: nbins_to_bins_def)

lemma pd_cut3_single: "pd_cut3 [Fin v] = Inr [Some 1]"
proof -
  define d where "d = (if v \<noteq> 0 then (1 / 1000) * \<bar>v\<bar> else 1 / 1000)"
  have d: "0 < d" by (simp add: d_def)
  have "nbins_to_bins [Fin v] = Inr (linspace4 (v - d) (v + d))"
    unfolding d_def by (rule nbins_single)
  moreover have "bin_code (linspace4 (v - d) (v + d)) (Fin v) = Some 1"
    using searchsorted_single[OF d, of v] by (simp add: bin_code_def linspace4_def)
  ultimately show ?thesis by (simp add: pd_cut3_def and_then_def)
qed

section \<open>The engineered frame of a numeric request\<close>

lemma map_of_DataFrame1: "map_of (DataFrame1 data) k = map_option (\<lambda>v. [v]) (map_of data k)"
  by (induction data) (auto simp: DataFrame1_def)

lemma to_numeric_idem: "to_numeric p (to_numeric p v) = to_numeric p v"
  by (cases v) auto

lemma map_of_coerce_fold:
  "map_of (fold (\<lambda>field d. case map_of d field of None \<Rightarrow> d
                    | Some c \<Rightarrow> setcol d field (map (to_numeric p) c)) fs df) k
   = (if k \<in> set fs then map_option (map (to_numeric p)) (map_of df k) else map_of df k)"
proof (induction fs arbitrary: df)
  case Nil
  then show ?case by simp
next
  case (Cons f fs)
  show ?case
    by (cases "map_of df f")
       (auto simp: Cons.IH map_of_setcol to_numeric_idem)
qed

lemma map_of_coerce_numeric:
  "map_of (coerce_numeric p df) k
   = (if k \<in> set numeric_fields then map_option (map (to_numeric p)) (map_of df k) else map_of df k)"
  unfolding coerce_numeric_def by (rule map_of_coerce_fold)

lemma numeric_cell:
  assumes "k \<in> set numeric_fields" and "map_of data k = Some (PNumber f)"
  shows "map_of (coerce_numeric p (DataFrame1 data)) k = Some [PNumber f]"
  using assms by (simp add: map_of_coerce_numeric map_of_DataFrame1)

lemma getnum_map_of:
  "getnum df k = (case map_of df k of None \<Rightarrow> Inl (KeyError k) | Some c \<Rightarrow> traverse as_num c)"
  by (simp add: getnum_def getcol_def and_then_def split: option.splits)

lemma map_of_filter_label:
  "map_of (filter (\<lambda>kc. fst kc \<notin> S) df) k = (if k \<in> S then None else map_of df k)"
  by (induction df) auto

lemma and_then_Inr: "and_then (Inr v) f = f v"
  by (simp add: and_then_def)

lemma and_then_Inl: "and_then (Inl e) f = Inl e"
  by (simp add: and_then_def)

lemma and_then_weak_cong: "r = r' \<Longrightarrow> and_then r f = and_then r' f"
  by simp

lemma dummy_columns_three:
  "dummy_columns_of pre [a, b, c] codes =
     [(pre @ ''_'' @ b, map (\<lambda>x. PBool (x = Some 1)) codes),
      (pre @ ''_'' @ c, map (\<lambda>x. PBool (x = Some 2)) codes)]"
proof -
  have "[1..<length [a, b, c]] = [1, 2]" by (simp add: upt_rec)
  then show ?thesis unfolding dummy_columns_of_def by (simp only:) simp
qed

lemma in_numeric_fields:
  "''built_year'' \<in> set numeric_fields" "''renovation_year'' \<in> set numeric_fields"
  "''basement_area'' \<in> set numeric_fields" "''waterfront'' \<in> set numeric_fields"
  "''living_area'' \<in> set numeric_fields" "''lot_area'' \<in> set numeric_fields"
  "''house_area'' \<in> set numeric_fields" "''condition'' \<in> set numeric_fields"
  "''grade'' \<in> set numeric_fields" "''views'' \<in> set numeric_fields"
  by (simp_all add: numeric_fields_def)

lemma map_of_get_dummies:
  "map_of (get_dummies df cats) k =
     (case (if k \<in> set (map fst cats) then None else map_of df k) of
        Some c \<Rightarrow> Some c
      | None \<Rightarrow>
          map_of (concat (map (\<lambda>(k, labels, codes). dummy_columns_of k labels codes) cats)) k)"
  by (simp add: get_dummies_def map_of_filter_label map_add_def split: option.splits)


section \<open>Column labels of the engineered frame\<close>

lemma and_then_InrE:
  assumes "and_then r f = Inr y"
  obtains v where "r = Inr v" and "f v = Inr y"
  using assms by (cases r) (auto simp: and_then_def)

lemma columns_DataFrame1: "columns (DataFrame1 data) = map fst data"
  by (induction data) (auto simp: DataFrame1_def columns_def)

lemma columns_coerce_fold:
  "columns (fold (\<lambda>field d. case map_of d field of None \<Rightarrow> d
                    | Some c \<Rightarrow> setcol d field (map (to_numeric p) c)) fs df) = columns df"
proof (induction fs arbitrary: df)
  case Nil
  then show ?case by simp
next
  case (Cons f fs)
  show ?case
  proof (cases "map_of df f")
    case None
    then show ?thesis by (simp add: Cons.IH)
  next
    case (Some c)
    then have "f \<in> set (columns df)"
      using map_of_None_columns[of df f] by auto
    with Some show ?thesis by (simp add: Cons.IH columns_setcol)
  qed
qed

lemma columns_coerce_numeric: "columns (coerce_numeric p df) = columns df"
  unfolding coerce_numeric_def by (rule columns_coerce_fold)

lemma clear_setcol:
  assumes "distinct (columns df) \<and> set (columns df) \<inter> set dummy_names = {}"
    and "k \<notin> set dummy_names"
  shows "distinct (columns (setcol df k v))
     \<and> set (columns (setcol df k v)) \<inter> set dummy_names = {}"
  using assms by (auto simp: columns_setcol)

lemma columns_get_dummies_three:
  "columns (get_dummies df
      [(''condition_category'', [''Poor'', ''Average'', ''Good''], c1),
       (''grade_category'', [''Low'', ''Medium'', ''High''], c2),
       (''views_category'', [''None'', ''Some'', ''Excellent''], c3)])
   = filter (\<lambda>k. k \<notin> {''condition_category'', ''grade_category'', ''views_category''})
       (columns df) @ dummy_names"
  by (simp add: get_dummies_def dummy_columns_three columns_def dummy_names_def filter_map comp_def)

lemma distinct_dummy_names: "distinct dummy_names"
  by (simp add: dummy_names_def)

lemma clear_get_dummies:
  assumes "distinct (columns df) \<and> set (columns df) \<inter> set dummy_names = {}"
  shows "distinct (columns (get_dummies df
      [(''condition_category'', [''Poor'', ''Average'', ''Good''], c1),
       (''grade_category'', [''Low'', ''Medium'', ''High''], c2),
       (''views_category'', [''None'', ''Some'', ''Excellent''], c3)]))"
  using assms distinct_dummy_names
  by (simp only: columns_get_dummies_three distinct_append distinct_filter set_filter) blast

lemma not_dummy:
  "''age'' \<notin> set dummy_names" "''years_since_renovation'' \<notin> set dummy_names"
  "''has_basement'' \<notin> set dummy_names" "''is_renovated'' \<notin> set dummy_names"
  "''has_waterfront'' \<notin> set dummy_names" "''living_to_lot_ratio'' \<notin> set dummy_names"
  "''basement_to_house_ratio'' \<notin> set dummy_names" "''condition_category'' \<notin> set dummy_names"
  "''grade_category'' \<notin> set dummy_names" "''views_category'' \<notin> set dummy_names"
  by (simp_all add: dummy_names_def)

text \<open>
  The engineered frame of a request has distinct column labels, unless a key of the
  request is the name of a generated indicator column.
\<close>

lemma engineer_input_distinct:
  assumes "distinct (map fst data)"
    and "set (map fst data) \<inter> set dummy_names = {}"
    and "engineer_input env data = Inr df"
  shows "distinct (columns df)"
proof -
  let ?df = "coerce_numeric (str_numeric env) (DataFrame1 data)"
  have start: "distinct (columns ?df) \<and> set (columns ?df) \<inter> set dummy_names = {}"
    using assms(1,2) by (simp add: columns_coerce_numeric columns_DataFrame1)
  from assms(3) show ?thesis
    unfolding engineer_input_def Let_def
    apply (elim and_then_InrE)
    apply (drule Inr_inject)
    apply hypsubst
    apply (rule clear_get_dummies)
    apply (intro clear_setcol start not_dummy)
    done
qed

text \<open>
  So the feature frame of the service has one column per canonical feature, for every
  request none of whose keys is the label of a generated indicator column.
\<close>

lemma create_features_length:
  assumes "distinct (map fst data)"
    and "set (map fst data) \<inter> set dummy_names = {}"
    and "create_features_from_input env data = Inr X"
  shows "length X = length (feature_names env) \<and> columns X = feature_names env"
proof -
  from assms(3) obtain df where e: "engineer_input env data = Inr df"
    and a: "align (feature_names env) df = Inr X"
    unfolding create_features_from_input_def by (elim and_then_InrE)
  from engineer_input_distinct[OF assms(1,2) e] have "distinct (columns df)" .
  from align_selects[OF this, of "feature_names env"] a show ?thesis
    by (auto simp: columns_def comp_def)
qed

section \<open>The buckets of a served request\<close>

lemma absent_cell:
  assumes "set (map fst data) \<inter> set dummy_names = {}" and "k \<in> set dummy_names"
  shows "map_of (coerce_numeric p (DataFrame1 data)) k = None"
proof -
  from assms have "k \<notin> fst ` set data" by auto
  then have "map_of data k = None" by (simp add: map_of_eq_None_iff)
  then show ?thesis by (simp add: map_of_coerce_numeric map_of_DataFrame1)
qed

lemma in_dummy_names:
  "''condition_category_Average'' \<in> set dummy_names"
  "''condition_category_Good'' \<in> set dummy_names"
  "''grade_category_Medium'' \<in> set dummy_names"
  "''grade_category_High'' \<in> set dummy_names"
  "''views_category_Some'' \<in> set dummy_names"
  "''views_category_Excellent'' \<in> set dummy_names"
  by (simp_all add: dummy_names_def)

text \<open>
  At serving time the buckets do not depend on the values: every request with numeric
  fields is put into the middle bucket of condition, grade and views.
\<close>

lemma serving_buckets_constant:
  assumes "map_of data ''built_year'' = Some (PNumber (Fin built))"
    and "map_of data ''renovation_year'' = Some (PNumber (Fin reno))"
    and "map_of data ''basement_area'' = Some (PNumber (Fin basement))"
    and "map_of data ''waterfront'' = Some (PNumber (Fin waterfront))"
    and "map_of data ''living_area'' = Some (PNumber (Fin living))"
    and "map_of data ''lot_area'' = Some (PNumber (Fin lot))"
    and "map_of data ''house_area'' = Some (PNumber (Fin house))"
    and "map_of data ''condition'' = Some (PNumber (Fin condition))"
    and "map_of data ''grade'' = Some (PNumber (Fin grade))"
    and "map_of data ''views'' = Some (PNumber (Fin views))"
    and "set (map fst data) \<inter> set dummy_names = {}"
  shows "\<exists>df. engineer_input env data = Inr df
     \<and> map_of df ''condition_category_Average'' = Some [PBool True]
     \<and> map_of df ''condition_category_Good'' = Some [PBool False]
     \<and> map_of df ''grade_category_Medium'' = Some [PBool True]
     \<and> map_of df ''grade_category_High'' = Some [PBool False]
     \<and> map_of df ''views_category_Some'' = Some [PBool True]
     \<and> map_of df ''views_category_Excellent'' = Some [PBool False]"
proof -
  note cells = numeric_cell[OF in_numeric_fields(1) assms(1), of "str_numeric env"]
    numeric_cell[OF in_numeric_fields(2) assms(2), of "str_numeric env"]
    numeric_cell[OF in_numeric_fields(3) assms(3), of "str_numeric env"]
    numeric_cell[OF in_numeric_fields(4) assms(4), of "str_numeric env"]
    numeric_cell[OF in_numeric_fields(5) assms(5), of "str_numeric env"]
    numeric_cell[OF in_numeric_fields(6) assms(6), of "str_numeric env"]
    numeric_cell[OF in_numeric_fields(7) assms(7), of "str_numeric env"]
    numeric_cell[OF in_numeric_fields(8) assms(8), of "str_numeric env"]
    numeric_cell[OF in_numeric_fields(9) assms(9), of "str_numeric env"]
    numeric_cell[OF in_numeric_fields(10) assms(10), of "str_numeric env"]
  note absent = absent_cell[OF assms(11) in_dummy_names(1), of "str_numeric env"]
    absent_cell[OF assms(11) in_dummy_names(2), of "str_numeric env"]
    absent_cell[OF assms(11) in_dummy_names(3), of "str_numeric env"]
    absent_cell[OF assms(11) in_dummy_names(4), of "str_numeric env"]
    absent_cell[OF assms(11) in_dummy_names(5), of "str_numeric env"]
    absent_cell[OF assms(11) in_dummy_names(6), of "str_numeric env"]
  show ?thesis
    unfolding engineer_input_def
    apply (simp only: Let_def)
    by (simp add: getnum_map_of cells absent map_of_setcol and_then_Inr pd_cut3_single
          map_of_get_dummies dummy_columns_three
          split del: if_split cong: and_then_weak_cong)
qed

section \<open>Claims about validation\<close>










section \<open>Claims about internal errors and the clock\<close>

text \<open>
  C9, as stated, fails: when the regressor raises, the 500 body carries the raw text of
  the exception.
\<close>

theorem internal_error_text_in_body:
  "model_predict failing_env [] = Inl (LibraryError ''boom'')
   \<and> predict failing_env example_request = Error 500 ''Internal server error: boom''
   \<and> str_contains ''Internal server error: boom'' ''boom''"
  by code_simp

text \<open>
  C9, amended. Every exception raised by feature engineering, scaling or prediction for
  a validated request is caught at the request boundary and answered with status 500
  and the message "Internal server error: " followed by the text of the exception.
\<close>

theorem internal_errors_become_500:
  assumes "data \<noteq> []" and "missing_fields data = []"
    and "validate_ranges (str_float env) data validations = Inr None"
    and "create_features_from_input env data = Inl e
         \<or> (\<exists>X. create_features_from_input env data = Inr X
               \<and> (scaler_transform env X = Inl e
                   \<or> (\<exists>X_scaled. scaler_transform env X = Inr X_scaled
                         \<and> model_predict env X_scaled = Inl e)))"
  shows "predict env data = Error 500 (''Internal server error: '' @ str_exn e)"
  using assms
  by (auto simp: predict_def predict_try_def and_then_def)

theorem internal_errors_become_500_witness:
  "validate_ranges (str_float failing_env) example_request validations = Inr None
   \<and> predict failing_env example_request = Error 500 ''Internal server error: boom''"
proof -
  define X where
    "X = (case create_features_from_input failing_env example_request of
            Inr X \<Rightarrow> X | Inl e \<Rightarrow> [])"
  define Xs where "Xs = (case scaler_transform failing_env X of Inr Z \<Rightarrow> Z | Inl e \<Rightarrow> [])"
  have h1: "example_request \<noteq> []" by (simp add: example_request_def)
  have h2: "missing_fields example_request = []" by code_simp
  have h3: "validate_ranges (str_float failing_env) example_request validations = Inr None"
    by code_simp
  have h4: "create_features_from_input failing_env example_request = Inr X"
    unfolding X_def by code_simp
  have h5: "scaler_transform failing_env X = Inr Xs"
    unfolding Xs_def X_def by code_simp
  have h6: "model_predict failing_env Xs = Inl (LibraryError ''boom'')"
    by (simp add: failing_env_def)
  have "create_features_from_input failing_env example_request = Inl (LibraryError ''boom'')
         \<or> (\<exists>X. create_features_from_input failing_env example_request = Inr X
               \<and> (scaler_transform failing_env X = Inl (LibraryError ''boom'')
                   \<or> (\<exists>X_scaled. scaler_transform failing_env X = Inr X_scaled
                         \<and> model_predict failing_env X_scaled = Inl (LibraryError ''boom''))))"
    using h4 h5 h6 by blast
  from internal_errors_become_500[OF h1 h2 h3 this] h3 show ?thesis by simp
qed

text \<open>
  C7, as stated, fails: no reference year is injected, the feature engineer reads the
  wall clock, and the same record gives different scaled vectors in 2024 and in 2025.
\<close>

theorem features_change_with_the_clock:
  "scaled_features example_env example_request \<noteq> scaled_features next_year_env example_request"
  by code_simp

text \<open>
  C7, amended. For a fixed record and fixed artifacts, two runs of Feature Engineer,
  Aligner, Scaler whose clock reads fall in the same calendar year give the same
  result: the pipeline depends on the wall clock through its year only.
\<close>

theorem features_depend_on_clock_year_only:
  assumes "year (now e1) = year (now e2)"
    and "feature_names e1 = feature_names e2"
    and "scaler_transform e1 = scaler_transform e2"
    and "str_numeric e1 = str_numeric e2"
  shows "scaled_features e1 data = scaled_features e2 data"
  using assms
  by (simp add: scaled_features_def create_features_from_input_def engineer_input_def)

theorem features_depend_on_clock_year_only_witness:
  "now example_env \<noteq> now december_env
   \<and> scaled_features example_env example_request = scaled_features december_env example_request"
proof -
  have h1: "year (now example_env) = year (now december_env)"
    by (simp add: example_env_def december_env_def failing_env_def)
  have h2: "feature_names example_env = feature_names december_env"
    by (simp add: december_env_def failing_env_def)
  have h3: "scaler_transform example_env = scaler_transform december_env"
    by (simp add: december_env_def failing_env_def)
  have h4: "str_numeric example_env = str_numeric december_env"
    by (simp add: december_env_def failing_env_def)
  have n: "now example_env \<noteq> now december_env"
    by (simp add: example_env_def december_env_def failing_env_def)
  from features_depend_on_clock_year_only[OF h1 h2 h3 h4, of example_request] n
  show ?thesis by simp
qed

section \<open>Claims about the feature pipeline\<close>






text \<open>
  C1 on the code. The historical frame has conditions 1 and 5; training puts the second
  sale into the bucket "Good". Served with the feature list of that training run and the
  same clock, the same record is put into "Average": its bins are recomputed from the
  one-row frame of the request, where every value falls into the middle bin. The
  engineered rows differ.
\<close>

theorem serving_buckets_differ_from_training:
  "(case training_matrix (now example_env) historical of
      Inl e \<Rightarrow> False
    | Inr (X_train, feats) \<Rightarrow>
        (case create_features_from_input (example_env\<lparr>feature_names := feats\<rparr>)
                (raw_record historical 1) of
           Inl e \<Rightarrow> False
         | Inr X_serve \<Rightarrow>
             columns X_serve = columns X_train
             \<and> map_of X_train ''condition'' = Some [PNumber (Fin 1), PNumber (Fin 5)]
             \<and> map_of X_serve ''condition'' = Some [PNumber (Fin 5)]
             \<and> map_of X_train ''condition_category_Good'' = Some [PBool False, PBool True]
             \<and> map_of X_serve ''condition_category_Good'' = Some [PBool False]
             \<and> map_of X_train ''condition_category_Average'' = Some [PBool False, PBool False]
             \<and> map_of X_serve ''condition_category_Average'' = Some [PBool True]
             \<and> frame_row X_serve 0 \<noteq> frame_row X_train 1))"
  by code_simp

end
